theory Spec2Isabelle
  imports Complex_Main
begin

section \<open>ROI average align (chainer/functions/pooling/roi_average_align_2d.py)\<close>

text \<open>
  Python floats and numpy float32 values are modelled as \<^typ>\<open>real\<close>: the arithmetic of the
  model is exact, there is no rounding, no NaN and no infinity. Python integers are
  \<^typ>\<open>int\<close>.
\<close>

subsection \<open>The bilinear sampler\<close>

text \<open>Python's \<^verbatim>\<open>int(y)\<close> on a float truncates towards zero.\<close>

definition py_int :: "real \<Rightarrow> int" where
  "py_int r = (if 0 \<le> r then \<lfloor>r\<rfloor> else \<lceil>r\<rceil>)"

text \<open>
  The 8-tuple \<^verbatim>\<open>(y_low, x_low, y_high, x_high, w1, w2, w3, w4)\<close> the function returns;
  the tuple of eight \<^verbatim>\<open>None\<close> is \<^const>\<open>None\<close>.
\<close>

type_synonym bilinear_params = "int \<times> int \<times> int \<times> int \<times> real \<times> real \<times> real \<times> real"

definition get_bilinear_interp_params ::
  "real \<Rightarrow> real \<Rightarrow> int \<Rightarrow> int \<Rightarrow> bilinear_params option" where
  "get_bilinear_interp_params y x height width =
     (if y < -1 \<or> y > real_of_int height \<or> x < -1 \<or> x > real_of_int width then None
      else
        let y = (if y \<le> 0 then 0 else y);
            x = (if x \<le> 0 then 0 else x);
            y_low = py_int y;
            x_low = py_int x;
            (y_high, y_low, y) =
              (if y_low \<ge> height - 1 then (height - 1, height - 1, real_of_int (height - 1))
               else (y_low + 1, y_low, y));
            (x_high, x_low, x) =
              (if x_low \<ge> width - 1 then (width - 1, width - 1, real_of_int (width - 1))
               else (x_low + 1, x_low, x));
            ly = y - real_of_int y_low;
            lx = x - real_of_int x_low;
            hy = 1 - ly;
            hx = 1 - lx;
            w1 = hy * hx;
            w2 = hy * lx;
            w3 = ly * hx;
            w4 = ly * lx
        in Some (y_low, x_low, y_high, x_high, w1, w2, w3, w4))"

subsection \<open>Python values, errors and numpy arrays\<close>

datatype py_error = TypeError | ValueError | IndexError | ZeroDivisionError

text \<open>
  A result of Python code is \<open>Inr v\<close> when it returns \<open>v\<close> and \<open>Inl e\<close> when it raises
  \<open>e\<close>. A loop that may run forever returns an \<^typ>\<open>'a option\<close> around that, and
  \<^const>\<open>None\<close> is: the loop does not return.
\<close>

text \<open>
  The constructor's arguments are dynamically typed. These are the Python values the
  constructor distinguishes; a \<^verbatim>\<open>bool\<close> is an \<^verbatim>\<open>int\<close> for \<^verbatim>\<open>isinstance\<close> and is
  \<open>PInt 0\<close> or \<open>PInt 1\<close> here.
\<close>

datatype pyval = PInt int | PFloat real | PNone | PTuple "pyval list"

text \<open>
  A 4-dimensional numpy array: its shape and its elements in row-major (C) order.
\<close>

record ndarray4 =
  shape :: "nat \<times> nat \<times> nat \<times> nat"
  data :: "real list"

definition size4 :: "nat \<times> nat \<times> nat \<times> nat \<Rightarrow> nat" where
  "size4 s = (case s of (d0, d1, d2, d3) \<Rightarrow> d0 * d1 * d2 * d3)"

definition wf_ndarray4 :: "ndarray4 \<Rightarrow> bool" where
  "wf_ndarray4 a \<longleftrightarrow> length (data a) = size4 (shape a)"

definition zeros :: "nat \<times> nat \<times> nat \<times> nat \<Rightarrow> ndarray4" where
  "zeros s = \<lparr>shape = s, data = replicate (size4 s) 0\<rparr>"

text \<open>
  numpy resolves an index on an axis of length \<open>len\<close>: \<open>0 \<le> i < len\<close> is itself,
  \<open>-len \<le> i < 0\<close> counts from the end, anything else raises IndexError.
\<close>

definition norm_index :: "nat \<Rightarrow> int \<Rightarrow> nat option" where
  "norm_index len i =
     (if 0 \<le> i \<and> i < int len then Some (nat i)
      else if - int len \<le> i \<and> i < 0 then Some (nat (i + int len))
      else None)"

definition flat_index :: "nat \<times> nat \<times> nat \<times> nat \<Rightarrow> int \<Rightarrow> int \<Rightarrow> int \<Rightarrow> int \<Rightarrow> nat option" where
  "flat_index s i0 i1 i2 i3 =
     (case s of (d0, d1, d2, d3) \<Rightarrow>
        (case norm_index d0 i0 of None \<Rightarrow> None | Some j0 \<Rightarrow>
        (case norm_index d1 i1 of None \<Rightarrow> None | Some j1 \<Rightarrow>
        (case norm_index d2 i2 of None \<Rightarrow> None | Some j2 \<Rightarrow>
        (case norm_index d3 i3 of None \<Rightarrow> None | Some j3 \<Rightarrow>
           Some (((j0 * d1 + j1) * d2 + j2) * d3 + j3))))))"

text \<open>\<^verbatim>\<open>a[i0, i1, i2, i3]\<close>\<close>

definition nd_get :: "ndarray4 \<Rightarrow> int \<Rightarrow> int \<Rightarrow> int \<Rightarrow> int \<Rightarrow> py_error + real" where
  "nd_get a i0 i1 i2 i3 =
     (case flat_index (shape a) i0 i1 i2 i3 of
        None \<Rightarrow> Inl IndexError
      | Some k \<Rightarrow> Inr (data a ! k))"

text \<open>\<^verbatim>\<open>a[i0, i1, i2, i3] = v\<close>\<close>

definition nd_set :: "ndarray4 \<Rightarrow> int \<Rightarrow> int \<Rightarrow> int \<Rightarrow> int \<Rightarrow> real \<Rightarrow> py_error + ndarray4" where
  "nd_set a i0 i1 i2 i3 v =
     (case flat_index (shape a) i0 i1 i2 i3 of
        None \<Rightarrow> Inl IndexError
      | Some k \<Rightarrow> Inr (a\<lparr>data := (data a)[k := v]\<rparr>))"

text \<open>\<^verbatim>\<open>a[i0, i1, i2, i3] += g\<close>\<close>

definition nd_add :: "ndarray4 \<Rightarrow> int \<Rightarrow> int \<Rightarrow> int \<Rightarrow> int \<Rightarrow> real \<Rightarrow> py_error + ndarray4" where
  "nd_add a i0 i1 i2 i3 g =
     (case flat_index (shape a) i0 i1 i2 i3 of
        None \<Rightarrow> Inl IndexError
      | Some k \<Rightarrow> Inr (a\<lparr>data := (data a)[k := data a ! k + g]\<rparr>))"

text \<open>
  \<^verbatim>\<open>bottom_rois\<close> has shape \<open>(N, 4)\<close> (\<^verbatim>\<open>check_type_forward\<close>): a list of rows
  \<open>(y_min, x_min, y_max, x_max)\<close>. \<^verbatim>\<open>bottom_roi_indices\<close> has shape \<open>(N,)\<close>. Indexing a
  row follows numpy's rule on the first axis.
\<close>

type_synonym roi = "real \<times> real \<times> real \<times> real"

definition row_get :: "'a list \<Rightarrow> int \<Rightarrow> py_error + 'a" where
  "row_get xs n =
     (case norm_index (length xs) n of None \<Rightarrow> Inl IndexError | Some k \<Rightarrow> Inr (xs ! k))"

text \<open>\<^verbatim>\<open>t[k]\<close> on a tuple, for \<^verbatim>\<open>self.sampling_ratio[0]\<close> and \<^verbatim>\<open>self.sampling_ratio[1]\<close>.\<close>

definition tuple_get :: "'a list \<Rightarrow> nat \<Rightarrow> py_error + 'a" where
  "tuple_get xs k = (if k < length xs then Inr (xs ! k) else Inl IndexError)"

subsection \<open>The constructor \<^verbatim>\<open>ROIAverageAlign2D.__init__\<close>\<close>

text \<open>The attributes \<^verbatim>\<open>__init__\<close> sets on the operator.\<close>

record config =
  outh :: int
  outw :: int
  spatial_scale :: real
  sampling_ratio :: "int option list"

text \<open>\<^verbatim>\<open>_pair\<close>: an iterable is returned as it is (here: its elements), anything else twice.\<close>

definition pair :: "pyval \<Rightarrow> pyval list" where
  "pair x = (case x of PTuple xs \<Rightarrow> xs | _ \<Rightarrow> [x, x])"

text \<open>\<^verbatim>\<open>isinstance(v, int) and v > 0\<close>\<close>

definition is_positive_int :: "pyval \<Rightarrow> bool" where
  "is_positive_int v = (case v of PInt i \<Rightarrow> i > 0 | _ \<Rightarrow> False)"

text \<open>\<^verbatim>\<open>(isinstance(s, int) and s >= 1) or s is None\<close>\<close>

definition is_sampling_ratio :: "pyval \<Rightarrow> bool" where
  "is_sampling_ratio s = (case s of PInt i \<Rightarrow> i \<ge> 1 | PNone \<Rightarrow> True | _ \<Rightarrow> False)"

definition to_sampling_ratio :: "pyval \<Rightarrow> int option" where
  "to_sampling_ratio s = (case s of PInt i \<Rightarrow> Some i | _ \<Rightarrow> None)"

definition the_int :: "pyval \<Rightarrow> int" where
  "the_int v = (case v of PInt i \<Rightarrow> i | _ \<Rightarrow> 0)"

text \<open>
  Lines 138 to 144: an \<^verbatim>\<open>int\<close> is converted to \<^verbatim>\<open>float\<close> and not tested further;
  anything else must be a \<^verbatim>\<open>float\<close> greater than zero.
\<close>

definition check_spatial_scale :: "pyval \<Rightarrow> py_error + real" where
  "check_spatial_scale s =
     (case s of
        PInt i \<Rightarrow> Inr (real_of_int i)
      | PFloat r \<Rightarrow> if r > 0 then Inr r else Inl TypeError
      | _ \<Rightarrow> Inl TypeError)"

definition ROIAverageAlign2D_init :: "pyval \<Rightarrow> pyval \<Rightarrow> pyval \<Rightarrow> py_error + config" where
  "ROIAverageAlign2D_init outsize scale ratio =
     (case pair outsize of
        [oh, ow] \<Rightarrow>
          if \<not> is_positive_int oh then Inl TypeError
          else if \<not> is_positive_int ow then Inl TypeError
          else (case check_spatial_scale scale of
                  Inl e \<Rightarrow> Inl e
                | Inr sc \<Rightarrow>
                    if \<not> list_all is_sampling_ratio (pair ratio) then Inl TypeError
                    else Inr \<lparr>outh = the_int oh, outw = the_int ow, spatial_scale = sc,
                              sampling_ratio = map to_sampling_ratio (pair ratio)\<rparr>)
      | _ \<Rightarrow> Inl ValueError)"

subsection \<open>The geometry of a bin (lines 192 to 211, and again 373 to 394)\<close>

text \<open>\<^verbatim>\<open>max(roi_end - roi_start, 1.)\<close>\<close>

definition roi_extent :: "real \<Rightarrow> real \<Rightarrow> real" where
  "roi_extent roi_start roi_end = max (roi_end - roi_start) 1"

text \<open>
  The grid size on one axis: \<^verbatim>\<open>numpy.ceil(roi_extent / pooled)\<close> when the sampling ratio
  of the axis is \<^verbatim>\<open>None\<close>, the sampling ratio otherwise.
\<close>

definition roi_bin_grid :: "int option \<Rightarrow> real \<Rightarrow> int \<Rightarrow> int" where
  "roi_bin_grid ratio extent pooled =
     (case ratio of None \<Rightarrow> \<lceil>extent / real_of_int pooled\<rceil> | Some k \<Rightarrow> k)"

text \<open>
  The sample coordinate on one axis:
  \<^verbatim>\<open>roi_start + p * bin_size + (i + .5) * bin_size / roi_bin_grid\<close>
\<close>

definition sample_coord :: "real \<Rightarrow> int \<Rightarrow> real \<Rightarrow> int \<Rightarrow> int \<Rightarrow> real" where
  "sample_coord roi_start p bin_size grid i =
     roi_start + real_of_int p * bin_size
       + (real_of_int i + 0.5) * bin_size / real_of_int grid"

text \<open>
  What both loops derive from element number \<open>i\<close> before they sample: the position
  \<open>(n, c, ph, pw)\<close>, the batch index, the scaled start of the ROI, the bin sizes and the
  grid sizes. \<^verbatim>\<open>forward_cpu\<close> and \<^verbatim>\<open>backward_cpu\<close> have the same statements for it, in
  the same order; \<^verbatim>\<open>backward_cpu\<close> reads \<^verbatim>\<open>top_diff[n, c, ph, pw]\<close> before it looks at
  \<^verbatim>\<open>self.sampling_ratio\<close>, the model after it, and both can only raise IndexError.

  The operator is one the constructor has built, so \<^verbatim>\<open>outh\<close> and \<^verbatim>\<open>outw\<close> are positive
  and a sampling ratio is \<^verbatim>\<open>None\<close> or at least 1: the divisions by \<^verbatim>\<open>pooled_height\<close>,
  \<^verbatim>\<open>pooled_width\<close>, \<^verbatim>\<open>roi_bin_grid_h\<close>, \<^verbatim>\<open>roi_bin_grid_w\<close> and \<^verbatim>\<open>count\<close> have a non-zero
  divisor. \<^verbatim>\<open>channels\<close> comes from the shape of the data, and \<^verbatim>\<open>% channels\<close> raises
  ZeroDivisionError when it is zero.
\<close>

record bin_geometry =
  g_n :: int
  g_c :: int
  g_ph :: int
  g_pw :: int
  g_roi_batch_ind :: int
  g_roi_start_h :: real
  g_roi_start_w :: real
  g_bin_size_h :: real
  g_bin_size_w :: real
  g_roi_bin_grid_h :: int
  g_roi_bin_grid_w :: int

definition geometry ::
  "config \<Rightarrow> nat \<Rightarrow> roi list \<Rightarrow> int list \<Rightarrow> nat \<Rightarrow> py_error + bin_geometry" where
  "geometry cfg channels bottom_rois bottom_roi_indices i =
     (let pooled_width = outw cfg; pooled_height = outh cfg in
      if channels = 0 then Inl ZeroDivisionError
      else
        let pw = int i mod pooled_width;
            ph = py_int (real i / real_of_int pooled_width) mod pooled_height;
            c = py_int (real i / real_of_int pooled_width / real_of_int pooled_height)
                  mod int channels;
            n = py_int (real i / real_of_int pooled_width / real_of_int pooled_height
                  / real channels)
        in
        (case row_get bottom_roi_indices n of Inl e \<Rightarrow> Inl e | Inr roi_batch_ind \<Rightarrow>
        (case row_get bottom_rois n of Inl e \<Rightarrow> Inl e | Inr (y_min, x_min, y_max, x_max) \<Rightarrow>
          let roi_start_h = y_min * spatial_scale cfg;
              roi_start_w = x_min * spatial_scale cfg;
              roi_end_h = y_max * spatial_scale cfg;
              roi_end_w = x_max * spatial_scale cfg;
              roi_height = roi_extent roi_start_h roi_end_h;
              roi_width = roi_extent roi_start_w roi_end_w;
              bin_size_h = roi_height / real_of_int pooled_height;
              bin_size_w = roi_width / real_of_int pooled_width
          in
          (case tuple_get (sampling_ratio cfg) 0 of Inl e \<Rightarrow> Inl e | Inr ratio_h \<Rightarrow>
          (case tuple_get (sampling_ratio cfg) 1 of Inl e \<Rightarrow> Inl e | Inr ratio_w \<Rightarrow>
            Inr \<lparr>g_n = n, g_c = c, g_ph = ph, g_pw = pw,
                 g_roi_batch_ind = roi_batch_ind,
                 g_roi_start_h = roi_start_h, g_roi_start_w = roi_start_w,
                 g_bin_size_h = bin_size_h, g_bin_size_w = bin_size_w,
                 g_roi_bin_grid_h = roi_bin_grid ratio_h roi_height pooled_height,
                 g_roi_bin_grid_w = roi_bin_grid ratio_w roi_width pooled_width\<rparr>)))))"

subsection \<open>\<^verbatim>\<open>forward_cpu\<close>\<close>

text \<open>
  The inner \<^verbatim>\<open>while ix < roi_bin_grid_w\<close> of lines 219 to 239. On an invalid sample the
  source says \<^verbatim>\<open>continue\<close>, which jumps to the test of the \<^verbatim>\<open>while\<close> and skips the
  \<^verbatim>\<open>ix += 1\<close> at the end of the body: the next iteration has the same \<open>ix\<close>.
\<close>

partial_function (option) forward_ix_loop ::
  "ndarray4 \<Rightarrow> int \<Rightarrow> int \<Rightarrow> int \<Rightarrow> int \<Rightarrow> real \<Rightarrow> real \<Rightarrow> int \<Rightarrow> real \<Rightarrow> int
     \<Rightarrow> int \<Rightarrow> real \<Rightarrow> (py_error + real) option" where
  "forward_ix_loop bottom_data roi_batch_ind c height width y roi_start_w pw bin_size_w
       roi_bin_grid_w ix output_val =
     (if ix < roi_bin_grid_w then
        (let x = sample_coord roi_start_w pw bin_size_w roi_bin_grid_w ix in
         case get_bilinear_interp_params y x height width of
           None \<Rightarrow>
             forward_ix_loop bottom_data roi_batch_ind c height width y roi_start_w pw
               bin_size_w roi_bin_grid_w ix output_val
         | Some (y_low, x_low, y_high, x_high, w1, w2, w3, w4) \<Rightarrow>
             (case nd_get bottom_data roi_batch_ind c y_low x_low of
                Inl e \<Rightarrow> Some (Inl e) | Inr v1 \<Rightarrow>
             (case nd_get bottom_data roi_batch_ind c y_low x_high of
                Inl e \<Rightarrow> Some (Inl e) | Inr v2 \<Rightarrow>
             (case nd_get bottom_data roi_batch_ind c y_high x_low of
                Inl e \<Rightarrow> Some (Inl e) | Inr v3 \<Rightarrow>
             (case nd_get bottom_data roi_batch_ind c y_high x_high of
                Inl e \<Rightarrow> Some (Inl e) | Inr v4 \<Rightarrow>
                forward_ix_loop bottom_data roi_batch_ind c height width y roi_start_w pw
                  bin_size_w roi_bin_grid_w (ix + 1)
                  (output_val + (w1 * v1 + w2 * v2 + w3 * v3 + w4 * v4)))))))
      else Some (Inr output_val))"

text \<open>The outer \<^verbatim>\<open>while iy < roi_bin_grid_h\<close> of lines 215 to 240.\<close>

partial_function (option) forward_iy_loop ::
  "ndarray4 \<Rightarrow> int \<Rightarrow> int \<Rightarrow> int \<Rightarrow> int \<Rightarrow> bin_geometry \<Rightarrow> int \<Rightarrow> real
     \<Rightarrow> (py_error + real) option" where
  "forward_iy_loop bottom_data roi_batch_ind c height width g iy output_val =
     (if iy < g_roi_bin_grid_h g then
        (let y = sample_coord (g_roi_start_h g) (g_ph g) (g_bin_size_h g)
                   (g_roi_bin_grid_h g) iy in
         case forward_ix_loop bottom_data roi_batch_ind c height width y (g_roi_start_w g)
                (g_pw g) (g_bin_size_w g) (g_roi_bin_grid_w g) 0 output_val of
           None \<Rightarrow> None
         | Some (Inl e) \<Rightarrow> Some (Inl e)
         | Some (Inr output_val') \<Rightarrow>
             forward_iy_loop bottom_data roi_batch_ind c height width g (iy + 1) output_val')
      else Some (Inr output_val))"

declare forward_ix_loop.simps [code] forward_iy_loop.simps [code]

text \<open>
  \<^verbatim>\<open>for i in six.moves.range(size)\<close>: the body runs on \<open>0, 1, \<dots>, size - 1\<close> in this
  order and the loop ends at the first body that raises or does not return.
\<close>

fun for_range :: "(nat \<Rightarrow> 's \<Rightarrow> (py_error + 's) option) \<Rightarrow> nat list \<Rightarrow> 's \<Rightarrow> (py_error + 's) option" where
  "for_range body [] s = Some (Inr s)"
| "for_range body (i # is) s =
     (case body i s of
        None \<Rightarrow> None
      | Some (Inl e) \<Rightarrow> Some (Inl e)
      | Some (Inr s') \<Rightarrow> for_range body is s')"

text \<open>The body of the \<^verbatim>\<open>for\<close> of \<^verbatim>\<open>forward_cpu\<close>, lines 186 to 243.\<close>

definition forward_body ::
  "config \<Rightarrow> ndarray4 \<Rightarrow> roi list \<Rightarrow> int list \<Rightarrow> nat \<Rightarrow> ndarray4
     \<Rightarrow> (py_error + ndarray4) option" where
  "forward_body cfg bottom_data bottom_rois bottom_roi_indices i top_data =
     (case shape bottom_data of (batch, channels, height, width) \<Rightarrow>
        (case geometry cfg channels bottom_rois bottom_roi_indices i of
           Inl e \<Rightarrow> Some (Inl e)
         | Inr g \<Rightarrow>
             (let count = real_of_int (g_roi_bin_grid_h g * g_roi_bin_grid_w g) in
              case forward_iy_loop bottom_data (g_roi_batch_ind g) (g_c g) (int height)
                     (int width) g 0 0 of
                None \<Rightarrow> None
              | Some (Inl e) \<Rightarrow> Some (Inl e)
              | Some (Inr output_val) \<Rightarrow>
                  Some (nd_set top_data (g_n g) (g_c g) (g_ph g) (g_pw g)
                          (output_val / count)))))"

text \<open>
  \<^verbatim>\<open>forward_cpu\<close>. \<^verbatim>\<open>numpy.empty\<close> leaves the contents of \<^verbatim>\<open>top_data\<close> unspecified and
  the loop assigns every element; the model starts from zeros.
\<close>

definition forward_cpu ::
  "config \<Rightarrow> ndarray4 \<Rightarrow> roi list \<Rightarrow> int list \<Rightarrow> (py_error + ndarray4) option" where
  "forward_cpu cfg bottom_data bottom_rois bottom_roi_indices =
     (case shape bottom_data of (batch, channels, height, width) \<Rightarrow>
        (let n_rois = length bottom_rois;
             top_shape = (n_rois, channels, nat (outh cfg), nat (outw cfg))
         in for_range (forward_body cfg bottom_data bottom_rois bottom_roi_indices)
              [0..<size4 top_shape] (zeros top_shape)))"

subsection \<open>\<^verbatim>\<open>backward_cpu\<close>\<close>

text \<open>
  The inner \<^verbatim>\<open>while ix < roi_bin_grid_w\<close> of lines 401 to 426, with the same
  \<^verbatim>\<open>continue\<close> on an invalid sample.
\<close>

partial_function (option) backward_ix_loop ::
  "int \<Rightarrow> int \<Rightarrow> int \<Rightarrow> int \<Rightarrow> real \<Rightarrow> real \<Rightarrow> real \<Rightarrow> real \<Rightarrow> int \<Rightarrow> real \<Rightarrow> int
     \<Rightarrow> int \<Rightarrow> ndarray4 \<Rightarrow> (py_error + ndarray4) option" where
  "backward_ix_loop roi_batch_ind c height width top_diff_this_bin count y roi_start_w pw
       bin_size_w roi_bin_grid_w ix bottom_diff =
     (if ix < roi_bin_grid_w then
        (let x = sample_coord roi_start_w pw bin_size_w roi_bin_grid_w ix in
         case get_bilinear_interp_params y x height width of
           None \<Rightarrow>
             backward_ix_loop roi_batch_ind c height width top_diff_this_bin count y
               roi_start_w pw bin_size_w roi_bin_grid_w ix bottom_diff
         | Some (y_low, x_low, y_high, x_high, w1, w2, w3, w4) \<Rightarrow>
             (let g1 = top_diff_this_bin * w1 / count;
                  g2 = top_diff_this_bin * w2 / count;
                  g3 = top_diff_this_bin * w3 / count;
                  g4 = top_diff_this_bin * w4 / count
              in
              if x_low \<ge> 0 \<and> x_high \<ge> 0 \<and> y_low \<ge> 0 \<and> y_high \<ge> 0 then
                (case nd_add bottom_diff roi_batch_ind c y_low x_low g1 of
                   Inl e \<Rightarrow> Some (Inl e) | Inr d1 \<Rightarrow>
                (case nd_add d1 roi_batch_ind c y_low x_high g2 of
                   Inl e \<Rightarrow> Some (Inl e) | Inr d2 \<Rightarrow>
                (case nd_add d2 roi_batch_ind c y_high x_low g3 of
                   Inl e \<Rightarrow> Some (Inl e) | Inr d3 \<Rightarrow>
                (case nd_add d3 roi_batch_ind c y_high x_high g4 of
                   Inl e \<Rightarrow> Some (Inl e) | Inr d4 \<Rightarrow>
                   backward_ix_loop roi_batch_ind c height width top_diff_this_bin count y
                     roi_start_w pw bin_size_w roi_bin_grid_w (ix + 1) d4))))
              else
                backward_ix_loop roi_batch_ind c height width top_diff_this_bin count y
                  roi_start_w pw bin_size_w roi_bin_grid_w (ix + 1) bottom_diff))
      else Some (Inr bottom_diff))"

text \<open>The outer \<^verbatim>\<open>while iy < roi_bin_grid_h\<close> of lines 397 to 427.\<close>

partial_function (option) backward_iy_loop ::
  "int \<Rightarrow> int \<Rightarrow> int \<Rightarrow> int \<Rightarrow> real \<Rightarrow> real \<Rightarrow> bin_geometry \<Rightarrow> int \<Rightarrow> ndarray4
     \<Rightarrow> (py_error + ndarray4) option" where
  "backward_iy_loop roi_batch_ind c height width top_diff_this_bin count g iy bottom_diff =
     (if iy < g_roi_bin_grid_h g then
        (let y = sample_coord (g_roi_start_h g) (g_ph g) (g_bin_size_h g)
                   (g_roi_bin_grid_h g) iy in
         case backward_ix_loop roi_batch_ind c height width top_diff_this_bin count y
                (g_roi_start_w g) (g_pw g) (g_bin_size_w g) (g_roi_bin_grid_w g) 0
                bottom_diff of
           None \<Rightarrow> None
         | Some (Inl e) \<Rightarrow> Some (Inl e)
         | Some (Inr bottom_diff') \<Rightarrow>
             backward_iy_loop roi_batch_ind c height width top_diff_this_bin count g (iy + 1)
               bottom_diff')
      else Some (Inr bottom_diff))"

declare backward_ix_loop.simps [code] backward_iy_loop.simps [code]

text \<open>
  The body of the \<^verbatim>\<open>for\<close> of \<^verbatim>\<open>backward_cpu\<close>, lines 367 to 427. \<open>bottom_data_shape\<close> is
  \<^verbatim>\<open>self._bottom_data_shape\<close>, which \<^verbatim>\<open>forward_cpu\<close> stored.
\<close>

definition backward_body ::
  "config \<Rightarrow> nat \<times> nat \<times> nat \<times> nat \<Rightarrow> roi list \<Rightarrow> int list \<Rightarrow> ndarray4 \<Rightarrow> nat \<Rightarrow> ndarray4
     \<Rightarrow> (py_error + ndarray4) option" where
  "backward_body cfg bottom_data_shape bottom_rois bottom_roi_indices top_diff i bottom_diff =
     (case bottom_data_shape of (batch, channels, height, width) \<Rightarrow>
        (case geometry cfg channels bottom_rois bottom_roi_indices i of
           Inl e \<Rightarrow> Some (Inl e)
         | Inr g \<Rightarrow>
             (case nd_get top_diff (g_n g) (g_c g) (g_ph g) (g_pw g) of
                Inl e \<Rightarrow> Some (Inl e)
              | Inr top_diff_this_bin \<Rightarrow>
                  (let count = real_of_int (g_roi_bin_grid_h g * g_roi_bin_grid_w g) in
                   backward_iy_loop (g_roi_batch_ind g) (g_c g) (int height) (int width)
                     top_diff_this_bin count g 0 bottom_diff))))"

text \<open>
  \<^verbatim>\<open>backward_cpu\<close>; of the triple \<^verbatim>\<open>(bottom_diff, None, None)\<close> it returns, the model
  returns \<^verbatim>\<open>bottom_diff\<close>.
\<close>

definition backward_cpu ::
  "config \<Rightarrow> nat \<times> nat \<times> nat \<times> nat \<Rightarrow> roi list \<Rightarrow> int list \<Rightarrow> ndarray4
     \<Rightarrow> (py_error + ndarray4) option" where
  "backward_cpu cfg bottom_data_shape bottom_rois bottom_roi_indices top_diff =
     for_range (backward_body cfg bottom_data_shape bottom_rois bottom_roi_indices top_diff)
       [0..<size4 (shape top_diff)] (zeros bottom_data_shape)"

section \<open>Properties of the bilinear sampler\<close>


lemma get_bilinear_interp_params_None_iff:
  "get_bilinear_interp_params y x height width = None \<longleftrightarrow>
     (y < -1 \<or> y > real_of_int height \<or> x < -1 \<or> x > real_of_int width)"
  by (simp add: get_bilinear_interp_params_def Let_def split: prod.splits)

lemma corner_bounds:
  assumes "1 \<le> height" "1 \<le> width"
    and "get_bilinear_interp_params y x height width
           = Some (y_low, x_low, y_high, x_high, w1, w2, w3, w4)"
  shows "0 \<le> y_low \<and> y_low \<le> y_high \<and> y_high \<le> height - 1 \<and>
         0 \<le> x_low \<and> x_low \<le> x_high \<and> x_high \<le> width - 1"
  using assms
  by (auto simp: get_bilinear_interp_params_def Let_def py_int_def split: if_splits)

lemma mult_add_less:
  fixes a b m n :: nat
  assumes "a < m" "b < n"
  shows "a * n + b < m * n"
proof -
  have "a * n + b < a * n + n" using assms by simp
  also have "\<dots> = Suc a * n" by simp
  also have "\<dots> \<le> m * n" using assms by (intro mult_le_mono1) simp
  finally show ?thesis .
qed

lemma norm_index_less: "norm_index len i = Some j \<Longrightarrow> j < len"
  by (auto simp: norm_index_def split: if_splits)

lemma norm_index_in_range: "0 \<le> i \<Longrightarrow> i < int len \<Longrightarrow> norm_index len i = Some (nat i)"
  by (simp add: norm_index_def)

lemma flat_index_less:
  assumes "flat_index (d0, d1, d2, d3) i0 i1 i2 i3 = Some k"
  shows "k < d0 * d1 * d2 * d3"
proof -
  from assms obtain j0 j1 j2 j3 where
    j: "norm_index d0 i0 = Some j0" "norm_index d1 i1 = Some j1"
       "norm_index d2 i2 = Some j2" "norm_index d3 i3 = Some j3"
    and k: "k = ((j0 * d1 + j1) * d2 + j2) * d3 + j3"
    by (auto simp: flat_index_def split: option.splits)
  from j have b: "j0 < d0" "j1 < d1" "j2 < d2" "j3 < d3"
    by (auto dest: norm_index_less)
  have "j0 * d1 + j1 < d0 * d1" using b by (intro mult_add_less)
  then have "(j0 * d1 + j1) * d2 + j2 < d0 * d1 * d2" using b by (intro mult_add_less)
  then have "((j0 * d1 + j1) * d2 + j2) * d3 + j3 < d0 * d1 * d2 * d3"
    using b by (intro mult_add_less)
  then show ?thesis by (simp add: k)
qed

lemma flat_index_in_range:
  assumes "0 \<le> i0" "i0 < int d0" "0 \<le> i1" "i1 < int d1"
    and "0 \<le> i2" "i2 < int d2" "0 \<le> i3" "i3 < int d3"
  shows "flat_index (d0, d1, d2, d3) i0 i1 i2 i3
           = Some (((nat i0 * d1 + nat i1) * d2 + nat i2) * d3 + nat i3)"
  using assms by (simp add: flat_index_def norm_index_def)

lemma flat_index_in_bounds:
  assumes "wf_ndarray4 a" "shape a = (d0, d1, d2, d3)"
    and "0 \<le> i0" "i0 < int d0" "0 \<le> i1" "i1 < int d1"
    and "0 \<le> i2" "i2 < int d2" "0 \<le> i3" "i3 < int d3"
  shows "\<exists>k. flat_index (shape a) i0 i1 i2 i3 = Some k \<and> k < length (data a)"
proof -
  have "flat_index (d0, d1, d2, d3) i0 i1 i2 i3
          = Some (((nat i0 * d1 + nat i1) * d2 + nat i2) * d3 + nat i3)"
    using assms(3-) by (rule flat_index_in_range)
  moreover from this have "((nat i0 * d1 + nat i1) * d2 + nat i2) * d3 + nat i3 < d0 * d1 * d2 * d3"
    by (rule flat_index_less)
  ultimately show ?thesis
    using assms(1,2) by (simp add: wf_ndarray4_def size4_def)
qed



text \<open>
  C6. On a plane of height and width at least one, the corners of a valid sample satisfy
  \<open>0 \<le> y_low \<le> y_high \<le> height - 1\<close> and \<open>0 \<le> x_low \<le> x_high \<le> width - 1\<close>. So the
  guard of \<^verbatim>\<open>backward_cpu\<close> holds, and on a well-formed array of shape
  \<open>(B, C, height, width)\<close> with a batch index and a channel in range, each of the four
  reads of \<^verbatim>\<open>forward_cpu\<close> resolves to a position inside the array.
\<close>

theorem corners_in_bounds:
  assumes "1 \<le> height" and "1 \<le> width"
    and "get_bilinear_interp_params y x height width
           = Some (y_low, x_low, y_high, x_high, w1, w2, w3, w4)"
    and "wf_ndarray4 a" and "shape a = (B, C, nat height, nat width)"
    and "0 \<le> b" and "b < int B" and "0 \<le> c" and "c < int C"
  shows "(0 \<le> y_low \<and> y_low \<le> y_high \<and> y_high \<le> height - 1 \<and>
          0 \<le> x_low \<and> x_low \<le> x_high \<and> x_high \<le> width - 1) \<and>
         (x_low \<ge> 0 \<and> x_high \<ge> 0 \<and> y_low \<ge> 0 \<and> y_high \<ge> 0) \<and>
         (\<exists>k. flat_index (shape a) b c y_low x_low = Some k \<and> k < length (data a)) \<and>
         (\<exists>k. flat_index (shape a) b c y_low x_high = Some k \<and> k < length (data a)) \<and>
         (\<exists>k. flat_index (shape a) b c y_high x_low = Some k \<and> k < length (data a)) \<and>
         (\<exists>k. flat_index (shape a) b c y_high x_high = Some k \<and> k < length (data a))"
proof -
  have cb: "0 \<le> y_low \<and> y_low \<le> y_high \<and> y_high \<le> height - 1 \<and>
            0 \<le> x_low \<and> x_low \<le> x_high \<and> x_high \<le> width - 1"
    using assms(1-3) by (rule corner_bounds)
  have r: "\<exists>k. flat_index (shape a) b c yy xx = Some k \<and> k < length (data a)"
    if "0 \<le> yy" "yy \<le> height - 1" "0 \<le> xx" "xx \<le> width - 1" for yy xx
    using assms(4,5) \<open>0 \<le> b\<close> \<open>b < int B\<close> \<open>0 \<le> c\<close> \<open>c < int C\<close> \<open>0 \<le> yy\<close> _ \<open>0 \<le> xx\<close>
    by (rule flat_index_in_bounds) (use that assms(1,2) in auto)
  show ?thesis
    using cb r [of y_low x_low] r [of y_low x_high] r [of y_high x_low] r [of y_high x_high]
    by (simp del: ex_simps)
qed

theorem corners_in_bounds_witness:
  "get_bilinear_interp_params (1/2) (5/4) 2 3 = Some (0, 1, 1, 2, 3/8, 1/8, 3/8, 1/8)
   \<and> wf_ndarray4 \<lparr>shape = (1, 1, 2, 3), data = [1, 2, 3, 4, 5, 6]\<rparr>
   \<and> flat_index (1, 1, 2, 3) 0 0 0 1 = Some 1
   \<and> flat_index (1, 1, 2, 3) 0 0 0 2 = Some 2
   \<and> flat_index (1, 1, 2, 3) 0 0 1 1 = Some 4
   \<and> flat_index (1, 1, 2, 3) 0 0 1 2 = Some 5
   \<and> (\<exists>k. flat_index (1, 1, 2, 3) 0 0 1 2 = Some k \<and> k < 6)"
proof -
  have h: "get_bilinear_interp_params (1/2) (5/4) 2 3 = Some (0, 1, 1, 2, 3/8, 1/8, 3/8, 1/8)"
    by (simp add: get_bilinear_interp_params_def py_int_def Let_def)
  have w: "wf_ndarray4 \<lparr>shape = (1, 1, 2, 3), data = [1, 2, 3, 4, 5, 6]\<rparr>"
    by (simp add: wf_ndarray4_def size4_def)
  have f: "flat_index (1, 1, 2, 3) 0 0 0 1 = Some 1" "flat_index (1, 1, 2, 3) 0 0 0 2 = Some 2"
    "flat_index (1, 1, 2, 3) 0 0 1 1 = Some 4" "flat_index (1, 1, 2, 3) 0 0 1 2 = Some 5"
    by (simp_all add: flat_index_def norm_index_def)
  show ?thesis
    using h w f
      corners_in_bounds [of 2 3 "1/2" "5/4" 0 1 1 2 "3/8" "1/8" "3/8" "1/8"
        "\<lparr>shape = (1, 1, 2, 3), data = [1, 2, 3, 4, 5, 6]\<rparr>" 1 1 0 0]
    by simp
qed

text \<open>
  C7. The sampler returns the tuple of \<^verbatim>\<open>None\<close> exactly when \<open>y < -1\<close>, \<open>y > height\<close>,
  \<open>x < -1\<close> or \<open>x > width\<close>. The bounds themselves are valid: a sample at \<open>y = height\<close> or
  at \<open>y = -1\<close> gets parameters whenever \<open>x\<close> is within its bounds, and a sample at
  \<open>x = width\<close> or at \<open>x = -1\<close> whenever \<open>y\<close> is.
\<close>

theorem validity_test_boundary_inclusive:
  "(get_bilinear_interp_params y x (int H) (int W) = None \<longleftrightarrow>
      (y < -1 \<or> y > real H \<or> x < -1 \<or> x > real W)) \<and>
   (-1 \<le> x \<and> x \<le> real W \<longrightarrow>
      get_bilinear_interp_params (real H) x (int H) (int W) \<noteq> None \<and>
      get_bilinear_interp_params (-1) x (int H) (int W) \<noteq> None) \<and>
   (-1 \<le> y \<and> y \<le> real H \<longrightarrow>
      get_bilinear_interp_params y (real W) (int H) (int W) \<noteq> None \<and>
      get_bilinear_interp_params y (-1) (int H) (int W) \<noteq> None)"
proof (intro conjI impI)
  show "get_bilinear_interp_params y x (int H) (int W) = None \<longleftrightarrow>
      (y < -1 \<or> y > real H \<or> x < -1 \<or> x > real W)"
    by (simp add: get_bilinear_interp_params_None_iff)
next
  assume "-1 \<le> x \<and> x \<le> real W"
  then show "get_bilinear_interp_params (real H) x (int H) (int W) \<noteq> None"
    and "get_bilinear_interp_params (-1) x (int H) (int W) \<noteq> None"
    by (auto simp: get_bilinear_interp_params_None_iff)
next
  assume "-1 \<le> y \<and> y \<le> real H"
  then show "get_bilinear_interp_params y (real W) (int H) (int W) \<noteq> None"
    and "get_bilinear_interp_params y (-1) (int H) (int W) \<noteq> None"
    by (auto simp: get_bilinear_interp_params_None_iff)
qed

theorem validity_test_boundary_inclusive_witness:
  "get_bilinear_interp_params 2 3 (int 2) (int 3) = Some (1, 2, 1, 2, 1, 0, 0, 0)
   \<and> get_bilinear_interp_params (-1) (-1) (int 2) (int 3) = Some (0, 0, 1, 1, 1, 0, 0, 0)
   \<and> get_bilinear_interp_params (201/100) 3 (int 2) (int 3) = None
   \<and> get_bilinear_interp_params (-1) (-101/100) (int 2) (int 3) = None
   \<and> get_bilinear_interp_params (real 2) 3 (int 2) (int 3) \<noteq> None"
proof -
  have v: "get_bilinear_interp_params 2 3 (int 2) (int 3) = Some (1, 2, 1, 2, 1, 0, 0, 0)"
    "get_bilinear_interp_params (-1) (-1) (int 2) (int 3) = Some (0, 0, 1, 1, 1, 0, 0, 0)"
    "get_bilinear_interp_params (201/100) 3 (int 2) (int 3) = None"
    "get_bilinear_interp_params (-1) (-101/100) (int 2) (int 3) = None"
    by (simp_all add: get_bilinear_interp_params_def py_int_def Let_def)
  show ?thesis
    using v validity_test_boundary_inclusive [of 2 3 2 3] by simp
qed


section \<open>The constructor\<close>

lemma init_float_scale:
  "ROIAverageAlign2D_init outsize (PFloat r) ratio = Inr cfg \<Longrightarrow> 0 < r \<and> spatial_scale cfg = r"
  by (auto simp: ROIAverageAlign2D_init_def check_spatial_scale_def split: list.splits if_splits sum.splits)

lemma init_int_scale:
  "ROIAverageAlign2D_init outsize (PInt k) ratio = Inr cfg \<Longrightarrow> spatial_scale cfg = real_of_int k"
  by (auto simp: ROIAverageAlign2D_init_def check_spatial_scale_def split: list.splits if_splits sum.splits)

lemma is_positive_int_the_int: "is_positive_int v \<Longrightarrow> 0 < the_int v"
  by (auto simp: is_positive_int_def the_int_def split: pyval.splits)

lemma init_config:
  assumes "ROIAverageAlign2D_init outsize scale ratio = Inr cfg"
  shows "0 < outh cfg \<and> 0 < outw cfg \<and> (\<forall>k. Some k \<in> set (sampling_ratio cfg) \<longrightarrow> 1 \<le> k)"
  using assms
  by (auto simp: ROIAverageAlign2D_init_def is_positive_int_the_int list_all_iff
      is_sampling_ratio_def to_sampling_ratio_def
      split: list.splits if_splits sum.splits pyval.splits)

text \<open>
  C2. The claim is that every non-positive \<^verbatim>\<open>spatial_scale\<close> makes the constructor raise
  TypeError. The constructor does so for a \<^verbatim>\<open>float\<close>; an \<^verbatim>\<open>int\<close> is converted and
  accepted whatever its sign: \<^verbatim>\<open>spatial_scale=0\<close> and \<^verbatim>\<open>spatial_scale=-2\<close> build an
  operator whose scale is \<open>0.0\<close> and \<open>-2.0\<close>.
\<close>

theorem init_accepts_nonpositive_int_scale:
  "ROIAverageAlign2D_init (PInt 7) (PInt 0) PNone
     = Inr \<lparr>outh = 7, outw = 7, spatial_scale = 0, sampling_ratio = [None, None]\<rparr>
   \<and> ROIAverageAlign2D_init (PInt 7) (PInt (-2)) PNone
     = Inr \<lparr>outh = 7, outw = 7, spatial_scale = -2, sampling_ratio = [None, None]\<rparr>
   \<and> ROIAverageAlign2D_init (PInt 7) (PFloat 0) PNone = Inl TypeError
   \<and> ROIAverageAlign2D_init (PInt 7) (PFloat (-2)) PNone = Inl TypeError"
  by (simp add: ROIAverageAlign2D_init_def pair_def is_positive_int_def check_spatial_scale_def
      is_sampling_ratio_def to_sampling_ratio_def the_int_def)

section \<open>The geometry of a bin\<close>

lemma geometry_Inr:
  assumes "geometry cfg channels bottom_rois bottom_roi_indices i = Inr g"
  shows "\<exists>y_min x_min y_max x_max ratio_h ratio_w roi_batch_ind.
     row_get bottom_roi_indices (g_n g) = Inr roi_batch_ind \<and>
     row_get bottom_rois (g_n g) = Inr (y_min, x_min, y_max, x_max) \<and>
     tuple_get (sampling_ratio cfg) 0 = Inr ratio_h \<and>
     tuple_get (sampling_ratio cfg) 1 = Inr ratio_w \<and>
     channels \<noteq> 0 \<and>
     g = \<lparr>g_n = py_int (real i / real_of_int (outw cfg) / real_of_int (outh cfg) / real channels),
          g_c = py_int (real i / real_of_int (outw cfg) / real_of_int (outh cfg)) mod int channels,
          g_ph = py_int (real i / real_of_int (outw cfg)) mod outh cfg,
          g_pw = int i mod outw cfg,
          g_roi_batch_ind = roi_batch_ind,
          g_roi_start_h = y_min * spatial_scale cfg,
          g_roi_start_w = x_min * spatial_scale cfg,
          g_bin_size_h = roi_extent (y_min * spatial_scale cfg) (y_max * spatial_scale cfg) / real_of_int (outh cfg),
          g_bin_size_w = roi_extent (x_min * spatial_scale cfg) (x_max * spatial_scale cfg) / real_of_int (outw cfg),
          g_roi_bin_grid_h = roi_bin_grid ratio_h (roi_extent (y_min * spatial_scale cfg) (y_max * spatial_scale cfg)) (outh cfg),
          g_roi_bin_grid_w = roi_bin_grid ratio_w (roi_extent (x_min * spatial_scale cfg) (x_max * spatial_scale cfg)) (outw cfg)\<rparr>"
  using assms
  by (auto simp: geometry_def Let_def split: if_splits sum.splits prod.splits)

lemma ceiling_extent_ge_1:
  assumes "0 < p"
  shows "1 \<le> \<lceil>roi_extent s e / real_of_int p\<rceil>"
proof -
  have "0 < roi_extent s e" by (simp add: roi_extent_def)
  then have "0 < roi_extent s e / real_of_int p" using assms by simp
  then have "0 < \<lceil>roi_extent s e / real_of_int p\<rceil>" by (simp only: ceiling_less_iff [symmetric] zero_less_ceiling)
  then show ?thesis by simp
qed

text \<open>
  C8. For an operator the constructor built (\<open>outh, outw > 0\<close>, two sampling ratios) and
  the ROI of element \<open>i\<close>: a sampling ratio \<open>k\<close> on an axis is the grid size on that axis,
  whatever the ROI, so that \<open>(k, k)\<close> gives \<open>count = k * k\<close>; \<^verbatim>\<open>None\<close> on an axis gives
  the ceiling of the scaled extent, clamped to at least 1, divided by the pooled extent, and
  that is at least 1.
\<close>

theorem grid_size:
  assumes "geometry cfg channels bottom_rois bottom_roi_indices i = Inr g"
    and "sampling_ratio cfg = [ratio_h, ratio_w]"
    and "0 < outh cfg" and "0 < outw cfg"
    and "row_get bottom_rois (g_n g) = Inr (y_min, x_min, y_max, x_max)"
  shows "(\<forall>k. ratio_h = Some k \<longrightarrow> g_roi_bin_grid_h g = k) \<and>
         (\<forall>k. ratio_w = Some k \<longrightarrow> g_roi_bin_grid_w g = k) \<and>
         (\<forall>k. ratio_h = Some k \<and> ratio_w = Some k \<longrightarrow>
                g_roi_bin_grid_h g * g_roi_bin_grid_w g = k * k) \<and>
         (ratio_h = None \<longrightarrow>
            g_roi_bin_grid_h g
              = \<lceil>max (y_max * spatial_scale cfg - y_min * spatial_scale cfg) 1
                   / real_of_int (outh cfg)\<rceil>
            \<and> 1 \<le> g_roi_bin_grid_h g) \<and>
         (ratio_w = None \<longrightarrow>
            g_roi_bin_grid_w g
              = \<lceil>max (x_max * spatial_scale cfg - x_min * spatial_scale cfg) 1
                   / real_of_int (outw cfg)\<rceil>
            \<and> 1 \<le> g_roi_bin_grid_w g)"
proof -
  from geometry_Inr [OF assms(1)] assms(2,5)
  have h: "g_roi_bin_grid_h g = roi_bin_grid ratio_h
             (roi_extent (y_min * spatial_scale cfg) (y_max * spatial_scale cfg)) (outh cfg)"
    and w: "g_roi_bin_grid_w g = roi_bin_grid ratio_w
             (roi_extent (x_min * spatial_scale cfg) (x_max * spatial_scale cfg)) (outw cfg)"
    by (auto simp: tuple_get_def)
  have eh: "roi_extent (y_min * spatial_scale cfg) (y_max * spatial_scale cfg)
              = max (y_max * spatial_scale cfg - y_min * spatial_scale cfg) 1"
    and ew: "roi_extent (x_min * spatial_scale cfg) (x_max * spatial_scale cfg)
              = max (x_max * spatial_scale cfg - x_min * spatial_scale cfg) 1"
    by (simp_all add: roi_extent_def)
  show ?thesis
    using ceiling_extent_ge_1 [OF assms(3), of "y_min * spatial_scale cfg" "y_max * spatial_scale cfg"]
      ceiling_extent_ge_1 [OF assms(4), of "x_min * spatial_scale cfg" "x_max * spatial_scale cfg"]
    unfolding h w eh [symmetric] ew [symmetric]
    by (auto simp: roi_bin_grid_def)
qed


theorem grid_size_witness:
  "(let cfg = \<lparr>outh = 2, outw = 2, spatial_scale = 1/2, sampling_ratio = [Some 3, Some 3]\<rparr>;
        g = \<lparr>g_n = 1, g_c = 0, g_ph = 0, g_pw = 1, g_roi_batch_ind = 0,
              g_roi_start_h = 0, g_roi_start_w = 0, g_bin_size_h = 10, g_bin_size_w = 10,
              g_roi_bin_grid_h = 3, g_roi_bin_grid_w = 3\<rparr>
    in geometry cfg 1 [(2, 2, 1, 6), (0, 0, 40, 40)] [0, 0] 5 = Inr g
       \<and> g_roi_bin_grid_h g * g_roi_bin_grid_w g = 3 * 3) \<and>
   (let cfg = \<lparr>outh = 2, outw = 2, spatial_scale = 1/2, sampling_ratio = [None, None]\<rparr>;
        g = \<lparr>g_n = 1, g_c = 0, g_ph = 0, g_pw = 1, g_roi_batch_ind = 0,
              g_roi_start_h = 0, g_roi_start_w = 0, g_bin_size_h = 11/4, g_bin_size_w = 1/2,
              g_roi_bin_grid_h = 3, g_roi_bin_grid_w = 1\<rparr>
    in geometry cfg 1 [(2, 2, 1, 6), (0, 0, 11, -4)] [0, 0] 5 = Inr g
       \<and> g_roi_bin_grid_h g = \<lceil>max (11 * (1/2) - 0 * (1/2)) 1 / real_of_int 2\<rceil>
       \<and> g_roi_bin_grid_w g = \<lceil>max (-4 * (1/2) - 0 * (1/2)) 1 / real_of_int 2\<rceil>
       \<and> 1 \<le> g_roi_bin_grid_h g \<and> 1 \<le> g_roi_bin_grid_w g)"
proof -
  have a: "geometry \<lparr>outh = 2, outw = 2, spatial_scale = 1/2, sampling_ratio = [Some 3, Some 3]\<rparr>
             1 [(2, 2, 1, 6), (0, 0, 40, 40)] [0, 0] 5
           = Inr \<lparr>g_n = 1, g_c = 0, g_ph = 0, g_pw = 1, g_roi_batch_ind = 0,
              g_roi_start_h = 0, g_roi_start_w = 0, g_bin_size_h = 10, g_bin_size_w = 10,
              g_roi_bin_grid_h = 3, g_roi_bin_grid_w = 3\<rparr>"
    by code_simp
  have b: "geometry \<lparr>outh = 2, outw = 2, spatial_scale = 1/2, sampling_ratio = [None, None]\<rparr>
             1 [(2, 2, 1, 6), (0, 0, 11, -4)] [0, 0] 5
           = Inr \<lparr>g_n = 1, g_c = 0, g_ph = 0, g_pw = 1, g_roi_batch_ind = 0,
              g_roi_start_h = 0, g_roi_start_w = 0, g_bin_size_h = 11/4, g_bin_size_w = 1/2,
              g_roi_bin_grid_h = 3, g_roi_bin_grid_w = 1\<rparr>"
    by code_simp
  have ra: "row_get [(2, 2, 1, 6), (0, 0, 40, 40)] 1 = Inr (0, 0, 40, 40 :: real)"
    and rb: "row_get [(2, 2, 1, 6), (0, 0, 11, -4)] 1 = Inr (0, 0, 11, -4 :: real)"
    by (simp_all add: row_get_def norm_index_def)
  show ?thesis
    using a b ra rb
      grid_size [of "\<lparr>outh = 2, outw = 2, spatial_scale = 1/2, sampling_ratio = [Some 3, Some 3]\<rparr>"
        1 "[(2, 2, 1, 6), (0, 0, 40, 40)]" "[0, 0]" 5
        "\<lparr>g_n = 1, g_c = 0, g_ph = 0, g_pw = 1, g_roi_batch_ind = 0,
              g_roi_start_h = 0, g_roi_start_w = 0, g_bin_size_h = 10, g_bin_size_w = 10,
              g_roi_bin_grid_h = 3, g_roi_bin_grid_w = 3\<rparr>" "Some 3" "Some 3" 0 0 40 40]
      grid_size [of "\<lparr>outh = 2, outw = 2, spatial_scale = 1/2, sampling_ratio = [None, None]\<rparr>"
        1 "[(2, 2, 1, 6), (0, 0, 11, -4)]" "[0, 0]" 5
        "\<lparr>g_n = 1, g_c = 0, g_ph = 0, g_pw = 1, g_roi_batch_ind = 0,
              g_roi_start_h = 0, g_roi_start_w = 0, g_bin_size_h = 11/4, g_bin_size_w = 1/2,
              g_roi_bin_grid_h = 3, g_roi_bin_grid_w = 1\<rparr>" None None 0 0 11 "-4"]
    by (simp add: Let_def)
qed

section \<open>Degenerate ROIs\<close>

lemma geometry_same_scaled:
  assumes "length rois' = length rois"
    and "\<And>k. k < length rois \<Longrightarrow>
           (case (rois ! k, rois' ! k) of ((y_min, x_min, y_max, x_max), (y_min', x_min', y_max', x_max')) \<Rightarrow>
              y_min' * spatial_scale cfg = y_min * spatial_scale cfg \<and>
              x_min' * spatial_scale cfg = x_min * spatial_scale cfg \<and>
              roi_extent (y_min' * spatial_scale cfg) (y_max' * spatial_scale cfg)
                = roi_extent (y_min * spatial_scale cfg) (y_max * spatial_scale cfg) \<and>
              roi_extent (x_min' * spatial_scale cfg) (x_max' * spatial_scale cfg)
                = roi_extent (x_min * spatial_scale cfg) (x_max * spatial_scale cfg))"
  shows "geometry cfg channels rois' idxs i = geometry cfg channels rois idxs i"
proof -
  define n where "n = py_int (real i / real_of_int (outw cfg) / real_of_int (outh cfg) / real channels)"
  have unf: "geometry cfg channels rs idxs i =
     (if channels = 0 then Inl ZeroDivisionError
      else (case row_get idxs n of Inl e \<Rightarrow> Inl e | Inr roi_batch_ind \<Rightarrow>
        (case row_get rs n of Inl e \<Rightarrow> Inl e | Inr (y_min, x_min, y_max, x_max) \<Rightarrow>
          (case tuple_get (sampling_ratio cfg) 0 of Inl e \<Rightarrow> Inl e | Inr ratio_h \<Rightarrow>
          (case tuple_get (sampling_ratio cfg) 1 of Inl e \<Rightarrow> Inl e | Inr ratio_w \<Rightarrow>
            Inr \<lparr>g_n = n,
                 g_c = py_int (real i / real_of_int (outw cfg) / real_of_int (outh cfg)) mod int channels,
                 g_ph = py_int (real i / real_of_int (outw cfg)) mod outh cfg,
                 g_pw = int i mod outw cfg,
                 g_roi_batch_ind = roi_batch_ind,
                 g_roi_start_h = y_min * spatial_scale cfg,
                 g_roi_start_w = x_min * spatial_scale cfg,
                 g_bin_size_h = roi_extent (y_min * spatial_scale cfg) (y_max * spatial_scale cfg) / real_of_int (outh cfg),
                 g_bin_size_w = roi_extent (x_min * spatial_scale cfg) (x_max * spatial_scale cfg) / real_of_int (outw cfg),
                 g_roi_bin_grid_h = roi_bin_grid ratio_h (roi_extent (y_min * spatial_scale cfg) (y_max * spatial_scale cfg)) (outh cfg),
                 g_roi_bin_grid_w = roi_bin_grid ratio_w (roi_extent (x_min * spatial_scale cfg) (x_max * spatial_scale cfg)) (outw cfg)\<rparr>)))))"
    for rs
    unfolding geometry_def Let_def n_def ..
  show ?thesis
  proof (cases "norm_index (length rois) n")
    case None
    then have r: "row_get rois' n = Inl IndexError" "row_get rois n = Inl IndexError"
      by (simp_all add: row_get_def assms(1))
    show ?thesis
      unfolding unf r by (simp split: sum.splits)
  next
    case (Some k)
    then have k: "k < length rois" by (rule norm_index_less)
    obtain y_min x_min y_max x_max where a: "rois ! k = (y_min, x_min, y_max, x_max)"
      by (cases "rois ! k") auto
    obtain y_min' x_min' y_max' x_max' where b: "rois' ! k = (y_min', x_min', y_max', x_max')"
      by (cases "rois' ! k") auto
    from Some a b
    have r: "row_get rois' n = Inr (y_min', x_min', y_max', x_max')"
      "row_get rois n = Inr (y_min, x_min, y_max, x_max)"
      by (simp_all add: row_get_def assms(1))
    from assms(2) [OF k] show ?thesis
      unfolding unf r a b by (simp split: sum.splits)
  qed
qed

lemma forward_cpu_same_scaled:
  assumes "length rois' = length rois"
    and "\<And>k. k < length rois \<Longrightarrow>
           (case (rois ! k, rois' ! k) of ((y_min, x_min, y_max, x_max), (y_min', x_min', y_max', x_max')) \<Rightarrow>
              y_min' * spatial_scale cfg = y_min * spatial_scale cfg \<and>
              x_min' * spatial_scale cfg = x_min * spatial_scale cfg \<and>
              roi_extent (y_min' * spatial_scale cfg) (y_max' * spatial_scale cfg)
                = roi_extent (y_min * spatial_scale cfg) (y_max * spatial_scale cfg) \<and>
              roi_extent (x_min' * spatial_scale cfg) (x_max' * spatial_scale cfg)
                = roi_extent (x_min * spatial_scale cfg) (x_max * spatial_scale cfg))"
  shows "forward_cpu cfg bottom_data rois' idxs = forward_cpu cfg bottom_data rois idxs"
proof -
  have "forward_body cfg bottom_data rois' idxs = forward_body cfg bottom_data rois idxs"
    by (intro ext) (simp add: forward_body_def geometry_same_scaled [OF assms])
  then show ?thesis
    by (simp add: forward_cpu_def assms(1))
qed

text \<open>
  C9. Take ROI number \<open>n\<close> and replace it by a ROI with the same scaled start corner
  which, on each axis, either has the same scaled end, or has scaled extent exactly 1
  where the given ROI is empty or inverted (scaled end \<open>\<le>\<close> scaled start).
  \<^verbatim>\<open>forward_cpu\<close> behaves the same on both: it returns the same array, raises the same
  error, or returns on neither.
\<close>

theorem degenerate_roi_forced_to_unit_extent:
  assumes "n < length rois" and "rois ! n = (y_min, x_min, y_max, x_max)"
    and "y_min' * spatial_scale cfg = y_min * spatial_scale cfg"
    and "x_min' * spatial_scale cfg = x_min * spatial_scale cfg"
    and "(y_max * spatial_scale cfg \<le> y_min * spatial_scale cfg
            \<and> y_max' * spatial_scale cfg - y_min' * spatial_scale cfg = 1)
         \<or> y_max' * spatial_scale cfg = y_max * spatial_scale cfg"
    and "(x_max * spatial_scale cfg \<le> x_min * spatial_scale cfg
            \<and> x_max' * spatial_scale cfg - x_min' * spatial_scale cfg = 1)
         \<or> x_max' * spatial_scale cfg = x_max * spatial_scale cfg"
  shows "forward_cpu cfg bottom_data (rois[n := (y_min', x_min', y_max', x_max')]) idxs
           = forward_cpu cfg bottom_data rois idxs"
proof (rule forward_cpu_same_scaled)
  show "length (rois[n := (y_min', x_min', y_max', x_max')]) = length rois" by simp
next
  fix k assume "k < length rois"
  show "case (rois ! k, rois[n := (y_min', x_min', y_max', x_max')] ! k) of
          ((y_min, x_min, y_max, x_max), (y_min', x_min', y_max', x_max')) \<Rightarrow>
              y_min' * spatial_scale cfg = y_min * spatial_scale cfg \<and>
              x_min' * spatial_scale cfg = x_min * spatial_scale cfg \<and>
              roi_extent (y_min' * spatial_scale cfg) (y_max' * spatial_scale cfg)
                = roi_extent (y_min * spatial_scale cfg) (y_max * spatial_scale cfg) \<and>
              roi_extent (x_min' * spatial_scale cfg) (x_max' * spatial_scale cfg)
                = roi_extent (x_min * spatial_scale cfg) (x_max * spatial_scale cfg)"
  proof (cases "k = n")
    case True
    have "roi_extent (y_min' * spatial_scale cfg) (y_max' * spatial_scale cfg)
                = roi_extent (y_min * spatial_scale cfg) (y_max * spatial_scale cfg)"
      using assms(3,5) by (auto simp: roi_extent_def)
    moreover have "roi_extent (x_min' * spatial_scale cfg) (x_max' * spatial_scale cfg)
                = roi_extent (x_min * spatial_scale cfg) (x_max * spatial_scale cfg)"
      using assms(4,6) by (auto simp: roi_extent_def)
    ultimately show ?thesis
      unfolding True using assms(1)
      by (simp only: nth_list_update_eq assms(2) prod.case assms(3,4) simp_thms)
  next
    case False
    then show ?thesis by (simp split: prod.splits)
  qed
qed

theorem degenerate_roi_forced_to_unit_extent_witness:
  "forward_cpu \<lparr>outh = 1, outw = 2, spatial_scale = 1/2, sampling_ratio = [Some 2, None]\<rparr>
         \<lparr>shape = (1, 1, 4, 4), data = [0, 1, 2, 3, 4, 5, 6, 7, 8, 9, 10, 11, 12, 13, 14, 15]\<rparr>
         [(2, 2, 1, 6)] [0] = Some (Inr \<lparr>shape = (1, 1, 1, 2), data = [15/2, 17/2]\<rparr>)
   \<and> forward_cpu \<lparr>outh = 1, outw = 2, spatial_scale = 1/2, sampling_ratio = [Some 2, None]\<rparr>
         \<lparr>shape = (1, 1, 4, 4), data = [0, 1, 2, 3, 4, 5, 6, 7, 8, 9, 10, 11, 12, 13, 14, 15]\<rparr>
         [(2, 2, 4, 6)] [0] = Some (Inr \<lparr>shape = (1, 1, 1, 2), data = [15/2, 17/2]\<rparr>)"
proof -
  have v: "forward_cpu \<lparr>outh = 1, outw = 2, spatial_scale = 1/2, sampling_ratio = [Some 2, None]\<rparr>
         \<lparr>shape = (1, 1, 4, 4), data = [0, 1, 2, 3, 4, 5, 6, 7, 8, 9, 10, 11, 12, 13, 14, 15]\<rparr>
         [(2, 2, 1, 6)] [0] = Some (Inr \<lparr>shape = (1, 1, 1, 2), data = [15/2, 17/2]\<rparr>)"
    by code_simp
  show ?thesis
    using v degenerate_roi_forced_to_unit_extent [of 0 "[(2, 2, 1, 6)]" 2 2 1 6 2
        "\<lparr>outh = 1, outw = 2, spatial_scale = 1/2, sampling_ratio = [Some 2, None]\<rparr>" 2 4 6
        "\<lparr>shape = (1, 1, 4, 4), data = [0, 1, 2, 3, 4, 5, 6, 7, 8, 9, 10, 11, 12, 13, 14, 15]\<rparr>" "[0]"]
    by simp
qed



section \<open>The sampling loops on an invalid sample\<close>

text \<open>
  If the inner loop returns at all, the sample it starts with is valid: on an invalid
  sample the loop comes back to the same \<open>ix\<close> with the same state.
\<close>

lemma forward_ix_loop_Some_valid:
  assumes "forward_ix_loop bottom_data roi_batch_ind c height width y roi_start_w pw bin_size_w
             roi_bin_grid_w ix output_val = Some r"
    and "ix < roi_bin_grid_w"
  shows "get_bilinear_interp_params y
           (sample_coord roi_start_w pw bin_size_w roi_bin_grid_w ix) height width \<noteq> None"
  using assms
proof (induction rule: forward_ix_loop.raw_induct [rotated 1, consumes 1])
  case (1 loop bottom_data roi_batch_ind c height width y roi_start_w pw bin_size_w
          roi_bin_grid_w ix output_val r)
  show ?case
  proof
    assume n: "get_bilinear_interp_params y
           (sample_coord roi_start_w pw bin_size_w roi_bin_grid_w ix) height width = None"
    with "1.hyps" \<open>ix < roi_bin_grid_w\<close>
    have "loop bottom_data roi_batch_ind c height width y roi_start_w pw bin_size_w
             roi_bin_grid_w ix output_val = Some r"
      by (simp add: Let_def)
    from "1.IH" [OF this \<open>ix < roi_bin_grid_w\<close>] n show False by simp
  qed
qed

lemma forward_ix_loop_invalid:
  assumes "ix < roi_bin_grid_w"
    and "get_bilinear_interp_params y
           (sample_coord roi_start_w pw bin_size_w roi_bin_grid_w ix) height width = None"
  shows "forward_ix_loop bottom_data roi_batch_ind c height width y roi_start_w pw bin_size_w
             roi_bin_grid_w ix output_val = None"
proof (cases "forward_ix_loop bottom_data roi_batch_ind c height width y roi_start_w pw
       bin_size_w roi_bin_grid_w ix output_val")
  case None
  then show ?thesis .
next
  case (Some r)
  from forward_ix_loop_Some_valid [OF Some assms(1)] assms(2) show ?thesis by simp
qed

lemma forward_ix_loop_step:
  assumes "ix < roi_bin_grid_w"
    and "get_bilinear_interp_params y
           (sample_coord roi_start_w pw bin_size_w roi_bin_grid_w ix) height width
         = Some (y_low, x_low, y_high, x_high, w1, w2, w3, w4)"
    and "nd_get bottom_data roi_batch_ind c y_low x_low = Inr v1"
    and "nd_get bottom_data roi_batch_ind c y_low x_high = Inr v2"
    and "nd_get bottom_data roi_batch_ind c y_high x_low = Inr v3"
    and "nd_get bottom_data roi_batch_ind c y_high x_high = Inr v4"
  shows "forward_ix_loop bottom_data roi_batch_ind c height width y roi_start_w pw bin_size_w
             roi_bin_grid_w ix output_val
         = forward_ix_loop bottom_data roi_batch_ind c height width y roi_start_w pw bin_size_w
             roi_bin_grid_w (ix + 1) (output_val + (w1 * v1 + w2 * v2 + w3 * v3 + w4 * v4))"
  by (subst forward_ix_loop.simps) (simp add: assms Let_def)

lemma forward_iy_loop_inner_None:
  assumes "iy < g_roi_bin_grid_h g"
    and "forward_ix_loop bottom_data roi_batch_ind c height width
           (sample_coord (g_roi_start_h g) (g_ph g) (g_bin_size_h g) (g_roi_bin_grid_h g) iy)
           (g_roi_start_w g) (g_pw g) (g_bin_size_w g) (g_roi_bin_grid_w g) 0 output_val = None"
  shows "forward_iy_loop bottom_data roi_batch_ind c height width g iy output_val = None"
  by (subst forward_iy_loop.simps) (simp add: assms Let_def)

lemma forward_body_first_sample_invalid:
  assumes "shape bottom_data = (batch, channels, height, width)"
    and "geometry cfg channels bottom_rois bottom_roi_indices i = Inr g"
    and "0 < g_roi_bin_grid_h g" and "0 < g_roi_bin_grid_w g"
    and "get_bilinear_interp_params
           (sample_coord (g_roi_start_h g) (g_ph g) (g_bin_size_h g) (g_roi_bin_grid_h g) 0)
           (sample_coord (g_roi_start_w g) (g_pw g) (g_bin_size_w g) (g_roi_bin_grid_w g) 0)
           (int height) (int width) = None"
  shows "forward_body cfg bottom_data bottom_rois bottom_roi_indices i top_data = None"
proof -
  have "forward_ix_loop bottom_data (g_roi_batch_ind g) (g_c g) (int height) (int width)
           (sample_coord (g_roi_start_h g) (g_ph g) (g_bin_size_h g) (g_roi_bin_grid_h g) 0)
           (g_roi_start_w g) (g_pw g) (g_bin_size_w g) (g_roi_bin_grid_w g) 0 0 = None"
    using assms(4,5) by (rule forward_ix_loop_invalid)
  with assms(3)
  have "forward_iy_loop bottom_data (g_roi_batch_ind g) (g_c g) (int height) (int width) g 0 0
          = None"
    by (rule forward_iy_loop_inner_None)
  then show ?thesis
    by (simp add: forward_body_def assms(1,2))
qed

lemma backward_ix_loop_Some_valid:
  assumes "backward_ix_loop roi_batch_ind c height width top_diff_this_bin count y roi_start_w
             pw bin_size_w roi_bin_grid_w ix bottom_diff = Some r"
    and "ix < roi_bin_grid_w"
  shows "get_bilinear_interp_params y
           (sample_coord roi_start_w pw bin_size_w roi_bin_grid_w ix) height width \<noteq> None"
  using assms
proof (induction rule: backward_ix_loop.raw_induct [rotated 1, consumes 1])
  case (1 loop roi_batch_ind c height width top_diff_this_bin count y roi_start_w
             pw bin_size_w roi_bin_grid_w ix bottom_diff r)
  show ?case
  proof
    assume n: "get_bilinear_interp_params y
           (sample_coord roi_start_w pw bin_size_w roi_bin_grid_w ix) height width = None"
    with "1.hyps" \<open>ix < roi_bin_grid_w\<close>
    have "loop roi_batch_ind c height width top_diff_this_bin count y roi_start_w
             pw bin_size_w roi_bin_grid_w ix bottom_diff = Some r"
      by (simp add: Let_def)
    from "1.IH" [OF this \<open>ix < roi_bin_grid_w\<close>] n show False by simp
  qed
qed

lemma backward_ix_loop_invalid:
  assumes "ix < roi_bin_grid_w"
    and "get_bilinear_interp_params y
           (sample_coord roi_start_w pw bin_size_w roi_bin_grid_w ix) height width = None"
  shows "backward_ix_loop roi_batch_ind c height width top_diff_this_bin count y roi_start_w
             pw bin_size_w roi_bin_grid_w ix bottom_diff = None"
proof (cases "backward_ix_loop roi_batch_ind c height width top_diff_this_bin count y
       roi_start_w pw bin_size_w roi_bin_grid_w ix bottom_diff")
  case None
  then show ?thesis .
next
  case (Some r)
  from backward_ix_loop_Some_valid [OF Some assms(1)] assms(2) show ?thesis by simp
qed

lemma backward_ix_loop_step:
  assumes "ix < roi_bin_grid_w"
    and "get_bilinear_interp_params y
           (sample_coord roi_start_w pw bin_size_w roi_bin_grid_w ix) height width
         = Some (y_low, x_low, y_high, x_high, w1, w2, w3, w4)"
    and "x_low \<ge> 0 \<and> x_high \<ge> 0 \<and> y_low \<ge> 0 \<and> y_high \<ge> 0"
    and "nd_add bottom_diff roi_batch_ind c y_low x_low (top_diff_this_bin * w1 / count) = Inr d1"
    and "nd_add d1 roi_batch_ind c y_low x_high (top_diff_this_bin * w2 / count) = Inr d2"
    and "nd_add d2 roi_batch_ind c y_high x_low (top_diff_this_bin * w3 / count) = Inr d3"
    and "nd_add d3 roi_batch_ind c y_high x_high (top_diff_this_bin * w4 / count) = Inr d4"
  shows "backward_ix_loop roi_batch_ind c height width top_diff_this_bin count y roi_start_w
             pw bin_size_w roi_bin_grid_w ix bottom_diff
         = backward_ix_loop roi_batch_ind c height width top_diff_this_bin count y roi_start_w
             pw bin_size_w roi_bin_grid_w (ix + 1) d4"
  by (subst backward_ix_loop.simps) (simp add: assms Let_def)

lemma backward_iy_loop_inner_None:
  assumes "iy < g_roi_bin_grid_h g"
    and "backward_ix_loop roi_batch_ind c height width top_diff_this_bin count
           (sample_coord (g_roi_start_h g) (g_ph g) (g_bin_size_h g) (g_roi_bin_grid_h g) iy)
           (g_roi_start_w g) (g_pw g) (g_bin_size_w g) (g_roi_bin_grid_w g) 0 bottom_diff = None"
  shows "backward_iy_loop roi_batch_ind c height width top_diff_this_bin count g iy bottom_diff
           = None"
  by (subst backward_iy_loop.simps) (simp add: assms Let_def)

lemma forward_body_None:
  assumes "shape bottom_data = (batch, channels, height, width)"
    and "geometry cfg channels bottom_rois bottom_roi_indices i = Inr g"
    and "forward_iy_loop bottom_data (g_roi_batch_ind g) (g_c g) (int height) (int width) g 0 0
           = None"
  shows "forward_body cfg bottom_data bottom_rois bottom_roi_indices i top_data = None"
  by (simp add: forward_body_def assms)

lemma forward_cpu_first_None:
  assumes "shape bottom_data = (batch, channels, height, width)"
    and "0 < size4 (length bottom_rois, channels, nat (outh cfg), nat (outw cfg))"
    and "\<And>top_data. forward_body cfg bottom_data bottom_rois bottom_roi_indices 0 top_data = None"
  shows "forward_cpu cfg bottom_data bottom_rois bottom_roi_indices = None"
  using assms(2) by (simp add: forward_cpu_def assms(1,3) upt_conv_Cons)

lemma backward_body_None:
  assumes "geometry cfg channels bottom_rois bottom_roi_indices i = Inr g"
    and "nd_get top_diff (g_n g) (g_c g) (g_ph g) (g_pw g) = Inr top_diff_this_bin"
    and "backward_iy_loop (g_roi_batch_ind g) (g_c g) (int height) (int width)
           top_diff_this_bin (real_of_int (g_roi_bin_grid_h g * g_roi_bin_grid_w g)) g 0
           bottom_diff = None"
  shows "backward_body cfg (batch, channels, height, width) bottom_rois bottom_roi_indices
           top_diff i bottom_diff = None"
  by (simp add: backward_body_def assms del: of_int_mult)

lemma backward_cpu_first_None:
  assumes "0 < size4 (shape top_diff)"
    and "backward_body cfg bottom_data_shape bottom_rois bottom_roi_indices top_diff 0
           (zeros bottom_data_shape) = None"
  shows "backward_cpu cfg bottom_data_shape bottom_rois bottom_roi_indices top_diff = None"
  using assms(1) by (simp add: backward_cpu_def assms(2) upt_conv_Cons)

text \<open>
  C1. The claim is that \<^verbatim>\<open>forward_cpu\<close> and \<^verbatim>\<open>backward_cpu\<close> return on every valid input,
  also when a sample is invalid. They do not: with a \<open>2 \<times> 2\<close> plane, the ROI
  \<open>(0, 0, 4, 4)\<close>, \<^verbatim>\<open>outsize=1\<close>, \<^verbatim>\<open>spatial_scale=1.0\<close> and \<^verbatim>\<open>sampling_ratio=2\<close>, the sample
  at \<open>(1, 1)\<close> is valid, the next one at \<open>(1, 3)\<close> is not, and neither function returns.
\<close>

theorem cpu_loops_hang_on_invalid_sample:
  "ROIAverageAlign2D_init (PInt 1) (PFloat 1) (PInt 2)
     = Inr \<lparr>outh = 1, outw = 1, spatial_scale = 1, sampling_ratio = [Some 2, Some 2]\<rparr>
   \<and> forward_cpu \<lparr>outh = 1, outw = 1, spatial_scale = 1, sampling_ratio = [Some 2, Some 2]\<rparr>
         \<lparr>shape = (1, 1, 2, 2), data = [1, 2, 3, 4]\<rparr> [(0, 0, 4, 4)] [0] = None
   \<and> backward_cpu \<lparr>outh = 1, outw = 1, spatial_scale = 1, sampling_ratio = [Some 2, Some 2]\<rparr>
         (1, 1, 2, 2) [(0, 0, 4, 4)] [0] \<lparr>shape = (1, 1, 1, 1), data = [1]\<rparr> = None"
proof -
  let ?cfg = "\<lparr>outh = 1, outw = 1, spatial_scale = 1, sampling_ratio = [Some 2, Some 2]\<rparr>"
  let ?fm = "\<lparr>shape = (1, 1, 2, 2), data = [1, 2, 3, 4]\<rparr>"
  let ?td = "\<lparr>shape = (1, 1, 1, 1), data = [1]\<rparr>"
  let ?g = "\<lparr>g_n = 0, g_c = 0, g_ph = 0, g_pw = 0, g_roi_batch_ind = 0,
        g_roi_start_h = 0, g_roi_start_w = 0, g_bin_size_h = 4,
        g_bin_size_w = 4, g_roi_bin_grid_h = 2, g_roi_bin_grid_w = 2\<rparr>"
  have init: "ROIAverageAlign2D_init (PInt 1) (PFloat 1) (PInt 2) = Inr ?cfg"
    by (simp add: ROIAverageAlign2D_init_def pair_def is_positive_int_def
        check_spatial_scale_def is_sampling_ratio_def to_sampling_ratio_def the_int_def)
  have g: "geometry ?cfg 1 [(0, 0, 4, 4)] [0] 0 = Inr ?g"
    by code_simp
  have y: "sample_coord 0 0 4 2 0 = 1" and x0: "sample_coord 0 0 4 2 0 = 1"
    and x1: "sample_coord 0 0 4 2 1 = 3"
    by (simp_all add: sample_coord_def)
  have p0: "get_bilinear_interp_params 1 (sample_coord 0 0 4 2 0) 2 2
              = Some (1, 1, 1, 1, 1, 0, 0, 0)"
    by (simp add: x0 get_bilinear_interp_params_def py_int_def Let_def)
  have p1: "get_bilinear_interp_params 1 (sample_coord 0 0 4 2 (0 + 1)) 2 2 = None"
    by (simp add: x1 get_bilinear_interp_params_def)
  have r: "nd_get ?fm 0 0 1 1 = Inr 4"
    by (simp add: nd_get_def flat_index_def norm_index_def)
  have "forward_ix_loop ?fm 0 0 2 2 1 0 0 4 2 0 0 = forward_ix_loop ?fm 0 0 2 2 1 0 0 4 2 (0 + 1)
          (0 + (1 * 4 + 0 * 4 + 0 * 4 + 0 * 4))"
    by (rule forward_ix_loop_step [OF _ p0 r r r r]) simp
  also have "\<dots> = None"
    by (rule forward_ix_loop_invalid [OF _ p1]) simp
  finally have "forward_ix_loop ?fm 0 0 2 2 1 0 0 4 2 0 0 = None" .
  then have fy: "forward_iy_loop ?fm (g_roi_batch_ind ?g) (g_c ?g) (int 2) (int 2) ?g 0 0 = None"
    by (intro forward_iy_loop_inner_None) (simp_all add: y)
  have s: "shape ?fm = (1, 1, 2, 2)" by simp
  have "forward_body ?cfg ?fm [(0, 0, 4, 4)] [0] 0 top_data = None" for top_data
    by (rule forward_body_None [OF s g fy])
  then have fwd: "forward_cpu ?cfg ?fm [(0, 0, 4, 4)] [0] = None"
    by (intro forward_cpu_first_None [OF s]) (simp_all add: size4_def)
  have t: "nd_get ?td 0 0 0 0 = Inr 1"
    by (simp add: nd_get_def flat_index_def norm_index_def)
  have a: "nd_add \<lparr>shape = (1, 1, 2, 2), data = [0, 0, 0, v]\<rparr> 0 0 1 1 w
             = Inr \<lparr>shape = (1, 1, 2, 2), data = [0, 0, 0, v + w]\<rparr>" for v w
    by (simp add: nd_add_def flat_index_def norm_index_def)
  have z: "zeros (1, 1, 2, 2) = \<lparr>shape = (1, 1, 2, 2), data = [0, 0, 0, 0]\<rparr>"
    by (simp add: zeros_def size4_def numeral_eq_Suc)
  have "backward_ix_loop 0 0 2 2 1 4 1 0 0 4 2 0 (zeros (1, 1, 2, 2))
          = backward_ix_loop 0 0 2 2 1 4 1 0 0 4 2 (0 + 1)
              \<lparr>shape = (1, 1, 2, 2),
                 data = [0, 0, 0, 0 + 1 * 1 / 4 + 1 * 0 / 4 + 1 * 0 / 4 + 1 * 0 / 4]\<rparr>"
    unfolding z by (rule backward_ix_loop_step [OF _ p0 _ a a a a]) simp_all
  also have "\<dots> = None"
    by (rule backward_ix_loop_invalid [OF _ p1]) simp
  finally have "backward_ix_loop 0 0 2 2 1 4 1 0 0 4 2 0 (zeros (1, 1, 2, 2)) = None" .
  then have bwy: "backward_iy_loop (g_roi_batch_ind ?g) (g_c ?g) (int 2) (int 2) 1
               (real_of_int (g_roi_bin_grid_h ?g * g_roi_bin_grid_w ?g)) ?g 0 (zeros (1, 1, 2, 2))
             = None"
    by (intro backward_iy_loop_inner_None) (simp_all add: y)
  have t': "nd_get ?td (g_n ?g) (g_c ?g) (g_ph ?g) (g_pw ?g) = Inr 1"
    by (simp add: nd_get_def flat_index_def norm_index_def)
  have "backward_body ?cfg (1, 1, 2, 2) [(0, 0, 4, 4)] [0] ?td 0 (zeros (1, 1, 2, 2)) = None"
    by (rule backward_body_None [OF g t' bwy])
  then have bwd: "backward_cpu ?cfg (1, 1, 2, 2) [(0, 0, 4, 4)] [0] ?td = None"
    by (intro backward_cpu_first_None) (simp_all add: size4_def)
  from init fwd bwd show ?thesis by simp
qed


text \<open>
  C3. The claim is that a bin whose samples are all invalid gets the value 0. With a
  \<open>2 \<times> 2\<close> plane and the ROI \<open>(5, 5, 6, 6)\<close> the four samples of the only bin are
  invalid, and \<^verbatim>\<open>forward_cpu\<close> does not return: it never leaves the first sample.
\<close>

theorem all_invalid_bin_never_returns:
  "get_bilinear_interp_params (sample_coord 5 0 1 2 0) (sample_coord 5 0 1 2 0) 2 2 = None
   \<and> get_bilinear_interp_params (sample_coord 5 0 1 2 0) (sample_coord 5 0 1 2 1) 2 2 = None
   \<and> get_bilinear_interp_params (sample_coord 5 0 1 2 1) (sample_coord 5 0 1 2 0) 2 2 = None
   \<and> get_bilinear_interp_params (sample_coord 5 0 1 2 1) (sample_coord 5 0 1 2 1) 2 2 = None
   \<and> geometry \<lparr>outh = 1, outw = 1, spatial_scale = 1, sampling_ratio = [Some 2, Some 2]\<rparr>
         1 [(5, 5, 6, 6)] [0] 0
       = Inr \<lparr>g_n = 0, g_c = 0, g_ph = 0, g_pw = 0, g_roi_batch_ind = 0,
              g_roi_start_h = 5, g_roi_start_w = 5, g_bin_size_h = 1, g_bin_size_w = 1,
              g_roi_bin_grid_h = 2, g_roi_bin_grid_w = 2\<rparr>
   \<and> forward_cpu \<lparr>outh = 1, outw = 1, spatial_scale = 1, sampling_ratio = [Some 2, Some 2]\<rparr>
         \<lparr>shape = (1, 1, 2, 2), data = [1, 2, 3, 4]\<rparr> [(5, 5, 6, 6)] [0] = None"
proof -
  let ?cfg = "\<lparr>outh = 1, outw = 1, spatial_scale = 1, sampling_ratio = [Some 2, Some 2]\<rparr>"
  let ?fm = "\<lparr>shape = (1, 1, 2, 2), data = [1, 2, 3, 4]\<rparr>"
  let ?g = "\<lparr>g_n = 0, g_c = 0, g_ph = 0, g_pw = 0, g_roi_batch_ind = 0,
        g_roi_start_h = 5, g_roi_start_w = 5, g_bin_size_h = 1,
        g_bin_size_w = 1, g_roi_bin_grid_h = 2, g_roi_bin_grid_w = 2\<rparr>"
  have g: "geometry ?cfg 1 [(5, 5, 6, 6)] [0] 0 = Inr ?g"
    by code_simp
  have inv:
    "get_bilinear_interp_params (sample_coord 5 0 1 2 0) (sample_coord 5 0 1 2 0) 2 2 = None"
    "get_bilinear_interp_params (sample_coord 5 0 1 2 0) (sample_coord 5 0 1 2 1) 2 2 = None"
    "get_bilinear_interp_params (sample_coord 5 0 1 2 1) (sample_coord 5 0 1 2 0) 2 2 = None"
    "get_bilinear_interp_params (sample_coord 5 0 1 2 1) (sample_coord 5 0 1 2 1) 2 2 = None"
    by (simp_all add: sample_coord_def get_bilinear_interp_params_def)
  have s: "shape ?fm = (1, 1, 2, 2)" by simp
  have "forward_body ?cfg ?fm [(5, 5, 6, 6)] [0] 0 top_data = None" for top_data
    by (rule forward_body_first_sample_invalid [OF s g]) (simp_all add: inv)
  then have "forward_cpu ?cfg ?fm [(5, 5, 6, 6)] [0] = None"
    by (intro forward_cpu_first_None [OF s]) (simp_all add: size4_def)
  with g inv show ?thesis
    by simp
qed


section \<open>What \<^verbatim>\<open>backward_cpu\<close> leaves untouched\<close>

text \<open>
  A property of \<^verbatim>\<open>bottom_diff\<close> that every \<^verbatim>\<open>+=\<close> at the batch index of the loop keeps is
  kept by the loops, if they return.
\<close>

lemma backward_ix_loop_preserves:
  assumes "backward_ix_loop roi_batch_ind c height width top_diff_this_bin count y roi_start_w
             pw bin_size_w roi_bin_grid_w ix bottom_diff = Some r"
    and "Q bottom_diff"
    and "\<And>d c y x g d'. Q d \<Longrightarrow> nd_add d roi_batch_ind c y x g = Inr d' \<Longrightarrow> Q d'"
    and "r = Inr d'"
  shows "Q d'"
  using assms
proof (induction arbitrary: d' rule: backward_ix_loop.raw_induct [rotated 1, consumes 1])
  case (1 loop roi_batch_ind c height width top_diff_this_bin count y roi_start_w
             pw bin_size_w roi_bin_grid_w ix bottom_diff r)
  note step = "1.prems"(2)
  show ?case
  proof (cases "ix < roi_bin_grid_w")
    case False
    with "1.hyps" "1.prems"(1,3) show ?thesis by auto
  next
    case True
    show ?thesis
    proof (cases "get_bilinear_interp_params y
           (sample_coord roi_start_w pw bin_size_w roi_bin_grid_w ix) height width")
      case None
      with "1.hyps" True
      have "loop roi_batch_ind c height width top_diff_this_bin count y roi_start_w
             pw bin_size_w roi_bin_grid_w ix bottom_diff = Some r"
        by (simp add: Let_def)
      from "1.IH" [OF this "1.prems"(1) step "1.prems"(3)] show ?thesis .
    next
      case (Some p)
      obtain y_low x_low y_high x_high w1 w2 w3 w4
        where p: "p = (y_low, x_low, y_high, x_high, w1, w2, w3, w4)"
        by (cases p) auto
      show ?thesis
      proof (cases "x_low \<ge> 0 \<and> x_high \<ge> 0 \<and> y_low \<ge> 0 \<and> y_high \<ge> 0")
        case False
        with "1.hyps" True Some p
        have "loop roi_batch_ind c height width top_diff_this_bin count y roi_start_w
               pw bin_size_w roi_bin_grid_w (ix + 1) bottom_diff = Some r"
          by (simp add: Let_def)
        from "1.IH" [OF this "1.prems"(1) step "1.prems"(3)] show ?thesis .
      next
        case guard: True
        from "1.hyps" True Some p guard "1.prems"(3)
        obtain d1 d2 d3 d4 where
          a: "nd_add bottom_diff roi_batch_ind c y_low x_low (top_diff_this_bin * w1 / count) = Inr d1"
             "nd_add d1 roi_batch_ind c y_low x_high (top_diff_this_bin * w2 / count) = Inr d2"
             "nd_add d2 roi_batch_ind c y_high x_low (top_diff_this_bin * w3 / count) = Inr d3"
             "nd_add d3 roi_batch_ind c y_high x_high (top_diff_this_bin * w4 / count) = Inr d4"
          and l: "loop roi_batch_ind c height width top_diff_this_bin count y roi_start_w
               pw bin_size_w roi_bin_grid_w (ix + 1) d4 = Some r"
          by (auto simp: Let_def split: sum.splits)
        have "Q d4"
          using "1.prems"(1) a by (blast intro: step)
        from "1.IH" [OF l this step "1.prems"(3)] show ?thesis .
      qed
    qed
  qed
qed

lemma backward_iy_loop_preserves:
  assumes "backward_iy_loop roi_batch_ind c height width top_diff_this_bin count g iy
             bottom_diff = Some r"
    and "Q bottom_diff"
    and "\<And>d c y x g d'. Q d \<Longrightarrow> nd_add d roi_batch_ind c y x g = Inr d' \<Longrightarrow> Q d'"
    and "r = Inr d'"
  shows "Q d'"
  using assms
proof (induction arbitrary: d' rule: backward_iy_loop.raw_induct [rotated 1, consumes 1])
  case (1 loop roi_batch_ind c height width top_diff_this_bin count g iy bottom_diff r)
  note step = "1.prems"(2)
  show ?case
  proof (cases "iy < g_roi_bin_grid_h g")
    case False
    with "1.hyps" "1.prems"(1,3) show ?thesis by auto
  next
    case True
    with "1.hyps" "1.prems"(3) obtain d1 where
      i: "backward_ix_loop roi_batch_ind c height width top_diff_this_bin count
           (sample_coord (g_roi_start_h g) (g_ph g) (g_bin_size_h g) (g_roi_bin_grid_h g) iy)
           (g_roi_start_w g) (g_pw g) (g_bin_size_w g) (g_roi_bin_grid_w g) 0 bottom_diff
          = Some (Inr d1)"
      and l: "loop roi_batch_ind c height width top_diff_this_bin count g (iy + 1) d1
                = Some r"
      by (auto simp: Let_def split: option.splits sum.splits)
    have "Q d1"
      by (rule backward_ix_loop_preserves [where Q = Q, OF i "1.prems"(1) _ refl]) (erule step)
    from "1.IH" [OF l this step "1.prems"(3)] show ?thesis .
  qed
qed


lemma backward_body_preserves:
  assumes "backward_body cfg (batch, channels, height, width) bottom_rois bottom_roi_indices
             top_diff i bottom_diff = Some (Inr d')"
    and "Q bottom_diff"
    and "\<And>r d c y x g d'. r \<in> set bottom_roi_indices \<Longrightarrow> Q d
           \<Longrightarrow> nd_add d r c y x g = Inr d' \<Longrightarrow> Q d'"
  shows "Q d'"
proof -
  from assms(1) obtain g t where
    g: "geometry cfg channels bottom_rois bottom_roi_indices i = Inr g"
    and l: "backward_iy_loop (g_roi_batch_ind g) (g_c g) (int height) (int width) t
              (real_of_int (g_roi_bin_grid_h g * g_roi_bin_grid_w g)) g 0 bottom_diff
            = Some (Inr d')"
    by (auto simp: backward_body_def Let_def simp del: of_int_mult split: sum.splits)
  from geometry_Inr [OF g] obtain k where
    "norm_index (length bottom_roi_indices) (g_n g) = Some k"
    "g_roi_batch_ind g = bottom_roi_indices ! k"
    by (auto simp: row_get_def split: option.splits)
  then have "g_roi_batch_ind g \<in> set bottom_roi_indices"
    by (auto dest: norm_index_less)
  then show ?thesis
    by (intro backward_iy_loop_preserves [where Q = Q, OF l assms(2) _ refl])
      (rule assms(3))
qed

lemma for_range_preserves:
  assumes "for_range body js s = Some (Inr s')"
    and "Q s"
    and "\<And>i s s'. body i s = Some (Inr s') \<Longrightarrow> Q s \<Longrightarrow> Q s'"
  shows "Q s'"
  using assms(1,2)
proof (induction js arbitrary: s)
  case Nil
  then show ?case by simp
next
  case (Cons j js)
  from Cons.prems(1) obtain s1 where
    b: "body j s = Some (Inr s1)" and r: "for_range body js s1 = Some (Inr s')"
    by (auto split: option.splits sum.splits)
  from b Cons.prems(2) have "Q s1" by (rule assms(3))
  with r show ?case by (rule Cons.IH)
qed

lemma div_plane: "r < m \<Longrightarrow> (j * m + r) div m = (j::nat)"
  by simp

lemma flat_index_div:
  assumes "flat_index (d0, d1, d2, d3) i0 i1 i2 i3 = Some k"
    and "norm_index d0 i0 = Some j0"
  shows "k div (d1 * d2 * d3) = j0"
proof -
  from assms obtain j1 j2 j3 where
    j: "norm_index d1 i1 = Some j1" "norm_index d2 i2 = Some j2" "norm_index d3 i3 = Some j3"
    and k: "k = ((j0 * d1 + j1) * d2 + j2) * d3 + j3"
    by (auto simp: flat_index_def split: option.splits)
  from j have b: "j1 < d1" "j2 < d2" "j3 < d3"
    by (auto dest: norm_index_less)
  have "j1 * d2 + j2 < d1 * d2" using b by (intro mult_add_less)
  then have r: "(j1 * d2 + j2) * d3 + j3 < d1 * d2 * d3" using b by (intro mult_add_less)
  have "k = j0 * (d1 * d2 * d3) + ((j1 * d2 + j2) * d3 + j3)"
    by (simp add: k algebra_simps)
  with r show ?thesis by (simp only: div_plane)
qed

lemma nd_add_frame:
  assumes "nd_add d r c y x g = Inr d'"
    and "shape d = (B, C, H, W)"
    and "0 \<le> r" and "r < int B" and "r \<noteq> int b"
    and "\<forall>k < length (data d). k div (C * H * W) = b \<longrightarrow> data d ! k = 0"
  shows "shape d' = (B, C, H, W) \<and> length (data d') = length (data d) \<and>
         (\<forall>k < length (data d'). k div (C * H * W) = b \<longrightarrow> data d' ! k = 0)"
proof -
  from assms(1) obtain k' where
    f: "flat_index (shape d) r c y x = Some k'"
    and d': "d' = d\<lparr>data := (data d)[k' := data d ! k' + g]\<rparr>"
    by (auto simp: nd_add_def split: option.splits)
  have "norm_index B r = Some (nat r)"
    using assms(3,4) by (rule norm_index_in_range)
  with f have "k' div (C * H * W) = nat r"
    unfolding assms(2) by (rule flat_index_div)
  with assms(3,5) have ne: "k' div (C * H * W) \<noteq> b" by auto
  have "data d' ! k = 0" if "k < length (data d')" "k div (C * H * W) = b" for k
  proof -
    from that ne have "k \<noteq> k'" by auto
    then have "data d' ! k = data d ! k" by (simp add: d')
    with that assms(6) show ?thesis by (simp add: d')
  qed
  with assms(2) show ?thesis
    by (simp add: d')
qed


text \<open>
  C10. With batch indices within \<open>0 \<le> index < batch_size\<close>, as the data model requires:
  if \<^verbatim>\<open>backward_cpu\<close> returns a gradient, every cell \<open>(b, c, y, x)\<close> of a batch plane \<open>b\<close>
  that is the batch index of no ROI is zero.
\<close>

theorem untouched_batch_plane_is_zero:
  assumes "backward_cpu cfg (B, C, H, W) bottom_rois bottom_roi_indices top_diff
             = Some (Inr bottom_diff)"
    and "\<forall>r \<in> set bottom_roi_indices. 0 \<le> r \<and> r < int B"
    and "int b \<notin> set bottom_roi_indices" and "b < B"
    and "c < C" and "y < H" and "x < W"
  shows "nd_get bottom_diff (int b) (int c) (int y) (int x) = Inr 0"
proof -
  define Q where "Q d \<longleftrightarrow> shape d = (B, C, H, W) \<and> length (data d) = B * C * H * W \<and>
    (\<forall>k < length (data d). k div (C * H * W) = b \<longrightarrow> data d ! k = 0)" for d :: ndarray4
  have init: "Q (zeros (B, C, H, W))"
    by (simp add: Q_def zeros_def size4_def)
  have add: "Q d'" if "r \<in> set bottom_roi_indices" "Q d" "nd_add d r c y x g = Inr d'"
    for r d c y x g d'
  proof -
    from that(1) assms(2,3) have r: "0 \<le> r" "r < int B" "r \<noteq> int b" by auto
    from that(2) have "shape d = (B, C, H, W)"
      and "\<forall>k < length (data d). k div (C * H * W) = b \<longrightarrow> data d ! k = 0"
      by (simp_all add: Q_def)
    from nd_add_frame [OF that(3) this(1) r this(2)] that(2) show ?thesis
      by (simp add: Q_def)
  qed
  have body: "Q s'"
    if "backward_body cfg (B, C, H, W) bottom_rois bottom_roi_indices top_diff i s
          = Some (Inr s')" "Q s" for i s s'
    using that by (rule backward_body_preserves [where Q = Q]) (rule add)
  have "Q bottom_diff"
    using assms(1) unfolding backward_cpu_def
    by (rule for_range_preserves [where Q = Q, OF _ init]) (rule body)
  then have sh: "shape bottom_diff = (B, C, H, W)"
    and len: "length (data bottom_diff) = B * C * H * W"
    and z: "\<And>k. k < length (data bottom_diff) \<Longrightarrow> k div (C * H * W) = b
              \<Longrightarrow> data bottom_diff ! k = 0"
    by (simp_all add: Q_def)
  let ?k = "((nat (int b) * C + nat (int c)) * H + nat (int y)) * W + nat (int x)"
  have f: "flat_index (B, C, H, W) (int b) (int c) (int y) (int x) = Some ?k"
    using assms(4-7) by (intro flat_index_in_range) simp_all
  from f have "?k < B * C * H * W" by (rule flat_index_less)
  moreover have "norm_index B (int b) = Some (nat (int b))"
    using assms(4) by (intro norm_index_in_range) simp_all
  with f have "?k div (C * H * W) = nat (int b)" by (rule flat_index_div)
  ultimately have "data bottom_diff ! ?k = 0"
    by (intro z) (simp_all add: len)
  with f show ?thesis
    by (simp add: nd_get_def sh)
qed

theorem untouched_batch_plane_is_zero_witness:
  "backward_cpu \<lparr>outh = 1, outw = 1, spatial_scale = 1, sampling_ratio = [Some 2, Some 2]\<rparr>
     (2, 1, 2, 2) [(0, 0, 2, 2)] [1] \<lparr>shape = (1, 1, 1, 1), data = [1]\<rparr>
     = Some (Inr \<lparr>shape = (2, 1, 2, 2), data = [0, 0, 0, 0, 1/16, 3/16, 3/16, 9/16]\<rparr>)
   \<and> nd_get \<lparr>shape = (2, 1, 2, 2), data = [0, 0, 0, 0, 1/16, 3/16, 3/16, 9/16]\<rparr>
         (int 0) (int 0) (int 1) (int 1) = Inr 0"
proof -
  have v: "backward_cpu \<lparr>outh = 1, outw = 1, spatial_scale = 1, sampling_ratio = [Some 2, Some 2]\<rparr>
     (2, 1, 2, 2) [(0, 0, 2, 2)] [1] \<lparr>shape = (1, 1, 1, 1), data = [1]\<rparr>
     = Some (Inr \<lparr>shape = (2, 1, 2, 2), data = [0, 0, 0, 0, 1/16, 3/16, 3/16, 9/16]\<rparr>)"
    by code_simp
  show ?thesis
    using v untouched_batch_plane_is_zero [OF v, of 0 0 1 1] by simp
qed



section \<open>Conservation of the gradient in \<^verbatim>\<open>backward_cpu\<close>\<close>





























end
